theory Spec2Isabelle
  imports Complex_Main
begin

section \<open>Errors raised by the module\<close>

text \<open>
  Every exception of the source is a value.  \<open>AssertionError\<close> is the failed
  \<^verbatim>\<open>assert\<close> of \<^verbatim>\<open>SPADE.__init__\<close>, \<open>AttributeError\<close> the call of
  \<^verbatim>\<open>.group\<close> on the \<^verbatim>\<open>None\<close> that \<^verbatim>\<open>re.search\<close> returns when nothing
  matches, \<open>ValueError\<close> and \<open>NotImplementedError\<close> carry the message of the two
  \<^verbatim>\<open>raise\<close> statements, and \<open>FrameworkError\<close> stands for any exception of the
  framework itself: a layer or a tensor operation that rejects its operands.
\<close>

datatype error =
    AssertionError
  | AttributeError
  | ValueError string
  | NotImplementedError string
  | FrameworkError

section \<open>The configuration string of SPADE\<close>

text \<open>
  \<^verbatim>\<open>config_text.startswith('spade')\<close>.
\<close>

definition startswith :: "string \<Rightarrow> string \<Rightarrow> bool" where
  "startswith s p = (take (length p) s = p)"

text \<open>
  The classes \<^verbatim>\<open>\d\<close> and \<^verbatim>\<open>\D\<close> of the pattern, on the characters a
  \<open>string\<close> holds (code points below 256, where the decimal digits are \<open>0\<close> to \<open>9\<close>).
\<close>

definition is_digit :: "char \<Rightarrow> bool" where
  "is_digit c = (c \<in> set ''0123456789'')"

text \<open>\<^verbatim>\<open>int(parsed.group(2))\<close> on the one digit the group holds.\<close>

definition int_of_digit :: "char \<Rightarrow> nat" where
  "int_of_digit c = length (takeWhile (\<lambda>d. d \<noteq> c) ''0123456789'')"

text \<open>
  The tail \<^verbatim>\<open>(\d)x\d\<close> of the pattern, matched at the start of a string: the digit
  captured by the group, if the three characters are there.
\<close>

fun match_ks :: "string \<Rightarrow> char option" where
  "match_ks (d # x # e # rest) =
     (if is_digit d \<and> x = CHR ''x'' \<and> is_digit e then Some d else None)"
| "match_ks rest = None"

text \<open>
  The greedy group \<^verbatim>\<open>(\D+)\<close>: it first takes every character up to the next
  digit, and gives characters back one at a time, down to one character, until the
  tail of the pattern matches behind it.  \<open>backtrack s n\<close> tries the lengths
  \<open>n, n - 1, \<dots>, 1\<close> in that order.
\<close>

fun backtrack :: "string \<Rightarrow> nat \<Rightarrow> (string \<times> char) option" where
  "backtrack s 0 = None"
| "backtrack s (Suc n) =
     (case match_ks (drop (Suc n) s) of
        Some d \<Rightarrow> Some (take (Suc n) s, d)
      | None \<Rightarrow> backtrack s n)"

text \<open>The whole pattern \<^verbatim>\<open>spade(\D+)(\d)x\d\<close> matched at the start of a string.\<close>

definition match_here :: "string \<Rightarrow> (string \<times> char) option" where
  "match_here s =
     (if startswith s ''spade''
      then backtrack (drop 5 s) (length (takeWhile (\<lambda>c. \<not> is_digit c) (drop 5 s)))
      else None)"

text \<open>
  \<^verbatim>\<open>re.search\<close>: the match at the leftmost position that has one.  The result is the
  pair of \<^verbatim>\<open>group(1)\<close> and \<^verbatim>\<open>group(2)\<close>.
\<close>

fun re_search :: "string \<Rightarrow> (string \<times> char) option" where
  "re_search [] = match_here []"
| "re_search (c # s) =
     (case match_here (c # s) of
        Some r \<Rightarrow> Some r
      | None \<Rightarrow> re_search s)"

section \<open>Layers of the framework\<close>

text \<open>
  The layer objects the constructors create, with the arguments the source passes:
  \<^item> \<open>ReflectionPad2d p\<close>, \<open>ReplicationPad2d p\<close>: the padding;
  \<^item> \<open>Conv2d c_in c_out kernel_size stride padding\<close>;
  \<^item> \<open>ConvTranspose2d c_in c_out kernel_size stride padding output_padding\<close>;
  \<^item> \<open>InstanceNorm2d num_features affine\<close>, \<open>BatchNorm2d num_features affine\<close>;
  \<^item> \<open>ReLU inplace\<close>, \<open>Sigmoid\<close>, \<open>Tanh\<close>, and \<open>Dropout\<close> (always with
    probability 0.5 in the source).
  Channel counts and sizes are natural numbers; \<^verbatim>\<open>//\<close> is \<open>div\<close> on them.
\<close>

datatype layer =
    ReflectionPad2d nat
  | ReplicationPad2d nat
  | Conv2d nat nat nat nat nat
  | ConvTranspose2d nat nat nat nat nat nat
  | InstanceNorm2d nat bool
  | BatchNorm2d nat bool
  | ReLU bool
  | Sigmoid
  | Tanh
  | Dropout

text \<open>
  Running a constructor or a forward pass step by step: the first exception ends it.
\<close>

definition and_then :: "error + 'a \<Rightarrow> ('a \<Rightarrow> error + 'b) \<Rightarrow> error + 'b" where
  "and_then r f = (case r of Inl e \<Rightarrow> Inl e | Inr x \<Rightarrow> f x)"

section \<open>SPADE: construction\<close>

record SPADE =
  param_free_norm :: layer
  mlp_shared :: "layer list"
  mlp_gamma :: layer
  mlp_beta :: layer

definition SPADE_init :: "string \<Rightarrow> nat \<Rightarrow> nat \<Rightarrow> error + SPADE" where
  "SPADE_init config_text norm_nc label_nc =
     (if \<not> startswith config_text ''spade'' then Inl AssertionError
      else (case re_search config_text of
        None \<Rightarrow> Inl AttributeError
      | Some (param_free_norm_type, d) \<Rightarrow>
          (let ks = int_of_digit d in
           and_then
             (if param_free_norm_type = ''instance'' then Inr (InstanceNorm2d norm_nc False)
              else if param_free_norm_type = ''batch'' then Inr (BatchNorm2d norm_nc False)
              else Inl (ValueError (param_free_norm_type @
                     '' is not a recognized param-free norm type in SPADE'')))
             (\<lambda>norm.
                let nhidden = 128;
                    pw = ks div 2
                in Inr \<lparr>param_free_norm = norm,
                        mlp_shared = [Conv2d label_nc nhidden ks 1 pw, ReLU False],
                        mlp_gamma = Conv2d nhidden norm_nc ks 1 pw,
                        mlp_beta = Conv2d nhidden norm_nc ks 1 pw\<rparr>))))"

section \<open>Tensors and the operations of the framework\<close>

text \<open>
  The learnable parameters and buffers of a layer are stored under the path of the
  layer in the module tree (the keys of the framework's state dictionary, such as
  \<^verbatim>\<open>model2.3.norm_layer0.mlp_gamma\<close>): two layers built with the same arguments are
  still two layers.
\<close>

datatype key = Name string | Index nat

type_synonym path = "key list"

text \<open>
  Convolution, normalisation, interpolation and tensor arithmetic belong to the
  framework, not to this repository.  They are the fields of a record over the type
  \<open>'t\<close> of tensors, and every forward pass below takes that record:
  \<^item> \<open>run_layer p l x\<close>: the layer \<open>l\<close>, with the parameters stored under \<open>p\<close>, applied
    to \<open>x\<close>;
  \<^item> \<open>interpolate_nearest segmap x\<close>:
    \<^verbatim>\<open>F.interpolate(segmap, size=x.size()[2:], mode='nearest')\<close>;
  \<^item> \<open>tensor_add a b\<close>, \<open>tensor_mul a b\<close>: \<^verbatim>\<open>a + b\<close> and \<^verbatim>\<open>a * b\<close> on tensors;
  \<^item> \<open>scalar_add c a\<close>: \<^verbatim>\<open>c + a\<close>, and \<open>scalar_mul a c\<close>: \<^verbatim>\<open>a * c\<close>, for a Python
    integer \<open>c\<close>;
  \<^item> \<open>full1 like v\<close>: the tensor with the single element \<open>v\<close>, of the data type and on
    the device of \<open>like\<close>.
  An operation that raises returns \<open>Inl\<close>.
\<close>

record 't framework =
  run_layer :: "path \<Rightarrow> layer \<Rightarrow> 't \<Rightarrow> error + 't"
  interpolate_nearest :: "'t \<Rightarrow> 't \<Rightarrow> error + 't"
  tensor_add :: "'t \<Rightarrow> 't \<Rightarrow> error + 't"
  tensor_mul :: "'t \<Rightarrow> 't \<Rightarrow> error + 't"
  scalar_add :: "int \<Rightarrow> 't \<Rightarrow> 't"
  scalar_mul :: "'t \<Rightarrow> int \<Rightarrow> 't"
  full1 :: "'t \<Rightarrow> rat \<Rightarrow> 't"

text \<open>
  \<^verbatim>\<open>nn.Sequential\<close>: the layers in order, the \<open>i\<close>-th one stored under the index
  \<open>i\<close>.  The second argument is the index of the first layer of the list.
\<close>

fun Sequential_forward ::
  "'t framework \<Rightarrow> path \<Rightarrow> nat \<Rightarrow> layer list \<Rightarrow> 't \<Rightarrow> error + 't" where
  "Sequential_forward fw p i [] x = Inr x"
| "Sequential_forward fw p i (m # ms) x =
     and_then (run_layer fw (p @ [Index i]) m x) (Sequential_forward fw p (Suc i) ms)"

section \<open>SPADE: forward pass\<close>

definition SPADE_forward ::
  "'t framework \<Rightarrow> path \<Rightarrow> SPADE \<Rightarrow> 't \<Rightarrow> 't \<Rightarrow> error + 't" where
  "SPADE_forward fw p self x segmap =
     and_then (run_layer fw (p @ [Name ''param_free_norm'']) (param_free_norm self) x)
       (\<lambda>normalized.
     and_then (interpolate_nearest fw segmap x)
       (\<lambda>segmap.
     and_then (Sequential_forward fw (p @ [Name ''mlp_shared'']) 0 (mlp_shared self) segmap)
       (\<lambda>actv.
     and_then (run_layer fw (p @ [Name ''mlp_gamma'']) (mlp_gamma self) actv)
       (\<lambda>gamma.
     and_then (run_layer fw (p @ [Name ''mlp_beta'']) (mlp_beta self) actv)
       (\<lambda>beta.
     and_then (tensor_mul fw normalized (scalar_add fw 1 gamma))
       (\<lambda>scaled. tensor_add fw scaled beta))))))"

section \<open>Residual blocks\<close>

text \<open>The module-level \<^verbatim>\<open>norm_layer = nn.InstanceNorm2d\<close> (\<^verbatim>\<open>affine\<close> is off by default).\<close>

definition norm_layer :: "nat \<Rightarrow> layer" where
  "norm_layer num_features = InstanceNorm2d num_features False"

record SPADEResidualBlock =
  conv_block0 :: "layer list"
  norm_layer0 :: SPADE
  conv_block1 :: "layer list"
  norm_layer1 :: SPADE

definition SPADEResidualBlock_init :: "nat \<Rightarrow> error + SPADEResidualBlock" where
  "SPADEResidualBlock_init in_features =
     (let conv_block0 = [ReflectionPad2d 1, Conv2d in_features in_features 3 1 0] in
      and_then (SPADE_init ''spadeinstance3x3'' in_features 3)
        (\<lambda>norm_layer0.
           let conv_block1 = [ReLU True, ReflectionPad2d 1, Conv2d in_features in_features 3 1 0] in
           and_then (SPADE_init ''spadeinstance3x3'' in_features 3)
             (\<lambda>norm_layer1.
                Inr \<lparr>conv_block0 = conv_block0, norm_layer0 = norm_layer0,
                     conv_block1 = conv_block1, norm_layer1 = norm_layer1\<rparr>)))"

definition SPADEResidualBlock_forward ::
  "'t framework \<Rightarrow> path \<Rightarrow> SPADEResidualBlock \<Rightarrow> 't \<Rightarrow> 't \<Rightarrow> error + 't" where
  "SPADEResidualBlock_forward fw p self x depth =
     and_then (Sequential_forward fw (p @ [Name ''conv_block0'']) 0 (conv_block0 self) x)
       (\<lambda>out.
     and_then (SPADE_forward fw (p @ [Name ''norm_layer0'']) (norm_layer0 self) out depth)
       (\<lambda>out.
     and_then (Sequential_forward fw (p @ [Name ''conv_block1'']) 0 (conv_block1 self) out)
       (\<lambda>out.
     and_then (SPADE_forward fw (p @ [Name ''norm_layer1'']) (norm_layer1 self) out depth)
       (\<lambda>out. tensor_add fw x out))))"

record ResidualBlock =
  conv_block :: "layer list"

definition ResidualBlock_init :: "nat \<Rightarrow> ResidualBlock" where
  "ResidualBlock_init in_features =
     \<lparr>conv_block =
        [ReflectionPad2d 1,
         Conv2d in_features in_features 3 1 0,
         norm_layer in_features,
         ReLU True,
         ReflectionPad2d 1,
         Conv2d in_features in_features 3 1 0,
         norm_layer in_features]\<rparr>"

definition ResidualBlock_forward ::
  "'t framework \<Rightarrow> path \<Rightarrow> ResidualBlock \<Rightarrow> 't \<Rightarrow> error + 't" where
  "ResidualBlock_forward fw p self x =
     and_then (Sequential_forward fw (p @ [Name ''conv_block'']) 0 (conv_block self) x)
       (\<lambda>out. tensor_add fw x out)"

section \<open>The conditioned generator\<close>

text \<open>
  A stage of \<^verbatim>\<open>model3\<close> is either a layer of the framework or a SPADE block; the
  forward pass tells them apart with \<^verbatim>\<open>isinstance(m, SPADE)\<close>.
\<close>

datatype stage = Plain layer | Cond SPADE

text \<open>
  The loops of the two constructors come first: each is a recursion on the number of
  iterations left, over the variables the loop updates.
\<close>

text \<open>
  The downsampling loop, shared by both generators: \<open>n\<close> iterations from the state
  \<^verbatim>\<open>(model1, in_features, out_features)\<close>.
\<close>

fun downsampling :: "nat \<Rightarrow> layer list \<times> nat \<times> nat \<Rightarrow> layer list \<times> nat \<times> nat" where
  "downsampling 0 st = st"
| "downsampling (Suc n) (model1, in_features, out_features) =
     downsampling n
       (model1 @ [Conv2d in_features out_features 3 2 1, norm_layer out_features, ReLU True],
        out_features, out_features * 2)"

text \<open>\<^verbatim>\<open>for _ in range(n_residual_blocks): model2 += [SPADEResidualBlock(in_features)]\<close>\<close>

fun SPADE_residual_blocks ::
  "nat \<Rightarrow> nat \<Rightarrow> SPADEResidualBlock list \<Rightarrow> error + SPADEResidualBlock list" where
  "SPADE_residual_blocks 0 in_features model2 = Inr model2"
| "SPADE_residual_blocks (Suc n) in_features model2 =
     and_then (SPADEResidualBlock_init in_features)
       (\<lambda>b. SPADE_residual_blocks n in_features (model2 @ [b]))"

text \<open>
  The upsampling loop of the conditioned generator, from the state
  \<^verbatim>\<open>(model3, in_features, out_features)\<close>.
\<close>

fun SPADE_upsampling ::
  "nat \<Rightarrow> stage list \<times> nat \<times> nat \<Rightarrow> error + stage list \<times> nat \<times> nat" where
  "SPADE_upsampling 0 st = Inr st"
| "SPADE_upsampling (Suc n) (model3, in_features, out_features) =
     and_then (SPADE_init ''spadeinstance3x3'' out_features 3)
       (\<lambda>spade.
          SPADE_upsampling n
            (model3 @ [Plain (ConvTranspose2d in_features out_features 3 2 1 1),
                       Cond spade,
                       Plain (ReLU True)],
             out_features, out_features div 2))"

text \<open>\<^verbatim>\<open>for _ in range(n_residual_blocks): model2 += [ResidualBlock(in_features)]\<close>\<close>

fun residual_blocks :: "nat \<Rightarrow> nat \<Rightarrow> ResidualBlock list \<Rightarrow> ResidualBlock list" where
  "residual_blocks 0 in_features model2 = model2"
| "residual_blocks (Suc n) in_features model2 =
     residual_blocks n in_features (model2 @ [ResidualBlock_init in_features])"

fun upsampling :: "nat \<Rightarrow> layer list \<times> nat \<times> nat \<Rightarrow> layer list \<times> nat \<times> nat" where
  "upsampling 0 st = st"
| "upsampling (Suc n) (model3, in_features, out_features) =
     upsampling n
       (model3 @ [ConvTranspose2d in_features out_features 3 2 1 1,
                  norm_layer out_features,
                  ReLU True],
        out_features, out_features div 2)"

record SPADEGenerator =
  model0 :: "layer list"
  model1 :: "layer list"
  model2 :: "SPADEResidualBlock list"
  model3 :: "stage list"
  model4 :: "layer list"

definition SPADEGenerator_init :: "nat \<Rightarrow> nat \<Rightarrow> nat \<Rightarrow> bool \<Rightarrow> error + SPADEGenerator" where
  "SPADEGenerator_init input_nc output_nc n_residual_blocks sigmoid =
     (let model0 = [ReflectionPad2d 3, Conv2d input_nc 64 7 1 0, norm_layer 64, ReLU True];
          in_features = 64;
          out_features = in_features * 2;
          (model1, in_features, out_features) = downsampling 2 ([], in_features, out_features)
      in
      and_then (SPADE_residual_blocks n_residual_blocks in_features [])
        (\<lambda>model2.
           let out_features = in_features div 2 in
           and_then (SPADE_upsampling 2 ([], in_features, out_features))
             (\<lambda>(model3, in_features, out_features).
                let model4 = [ReflectionPad2d 3, Conv2d 64 output_nc 7 1 0];
                    model4 = (if sigmoid then model4 @ [Sigmoid] else model4)
                in Inr \<lparr>model0 = model0, model1 = model1, model2 = model2,
                        model3 = model3, model4 = model4\<rparr>)))"

text \<open>\<^verbatim>\<open>for m in self.model2: out = m(out, depth)\<close>\<close>

fun model2_forward ::
  "'t framework \<Rightarrow> path \<Rightarrow> nat \<Rightarrow> SPADEResidualBlock list \<Rightarrow> 't \<Rightarrow> 't \<Rightarrow> error + 't" where
  "model2_forward fw p i [] out depth = Inr out"
| "model2_forward fw p i (m # ms) out depth =
     and_then (SPADEResidualBlock_forward fw (p @ [Index i]) m out depth)
       (\<lambda>out. model2_forward fw p (Suc i) ms out depth)"

text \<open>The loop over \<^verbatim>\<open>self.model3\<close>, which passes \<^verbatim>\<open>depth\<close> to the SPADE stages only.\<close>

fun model3_forward ::
  "'t framework \<Rightarrow> path \<Rightarrow> nat \<Rightarrow> stage list \<Rightarrow> 't \<Rightarrow> 't \<Rightarrow> error + 't" where
  "model3_forward fw p i [] out depth = Inr out"
| "model3_forward fw p i (Cond m # ms) out depth =
     and_then (SPADE_forward fw (p @ [Index i]) m out depth)
       (\<lambda>out. model3_forward fw p (Suc i) ms out depth)"
| "model3_forward fw p i (Plain m # ms) out depth =
     and_then (run_layer fw (p @ [Index i]) m out)
       (\<lambda>out. model3_forward fw p (Suc i) ms out depth)"

text \<open>
  The forward pass from \<^verbatim>\<open>out = self.model0(x)\<close> on, with the condition map it
  uses.
\<close>

definition SPADEGenerator_body ::
  "'t framework \<Rightarrow> path \<Rightarrow> SPADEGenerator \<Rightarrow> 't \<Rightarrow> 't \<Rightarrow> error + 't" where
  "SPADEGenerator_body fw p self x depth =
     and_then (Sequential_forward fw (p @ [Name ''model0'']) 0 (model0 self) x)
       (\<lambda>out.
     and_then (Sequential_forward fw (p @ [Name ''model1'']) 0 (model1 self) out)
       (\<lambda>out.
     and_then (model2_forward fw (p @ [Name ''model2'']) 0 (model2 self) out depth)
       (\<lambda>out.
     and_then (model3_forward fw (p @ [Name ''model3'']) 0 (model3 self) out depth)
       (\<lambda>out. Sequential_forward fw (p @ [Name ''model4'']) 0 (model4 self) out))))"

text \<open>
  \<^verbatim>\<open>SPADEGenerator.forward(x, depth, sign)\<close>.  The argument \<open>u\<close> is the number that
  \<^verbatim>\<open>torch.rand(1, ...)\<close> draws in this call, a value of the interval from 0 to 1 (1
  excluded); the draw is made whatever \<open>sign\<close> is.  Doubling and \<^verbatim>\<open>floor_\<close> are
  exact on it, so \<^verbatim>\<open>random_tensor\<close> holds \<open>\<lfloor>u * 2\<rfloor>\<close>.  The condition map is a
  tensor of floating-point numbers, for which the draw itself raises nothing.  The
  argument \<^verbatim>\<open>cond\<close> of the source is never read.
\<close>

definition SPADEGenerator_forward ::
  "'t framework \<Rightarrow> path \<Rightarrow> SPADEGenerator \<Rightarrow> rat \<Rightarrow> 't \<Rightarrow> 't \<Rightarrow> int \<Rightarrow> error + 't" where
  "SPADEGenerator_forward fw p self u x depth sign =
     (let random_tensor = full1 fw depth (of_int \<lfloor>u * 2\<rfloor>) in
      and_then
        (if sign = 0 then tensor_mul fw depth random_tensor
         else if sign = 1 then Inr depth
         else if sign = 2 then Inr (scalar_mul fw depth 0)
         else Inr depth)
        (\<lambda>depth. SPADEGenerator_body fw p self x depth))"

section \<open>The plain generator\<close>

record Generator =
  model0 :: "layer list"
  model1 :: "layer list"
  model2 :: "ResidualBlock list"
  model3 :: "layer list"
  model4 :: "layer list"

definition Generator_init :: "nat \<Rightarrow> nat \<Rightarrow> nat \<Rightarrow> bool \<Rightarrow> Generator" where
  "Generator_init input_nc output_nc n_residual_blocks sigmoid =
     (let model0 = [ReflectionPad2d 3, Conv2d input_nc 64 7 1 0, norm_layer 64, ReLU True];
          in_features = 64;
          out_features = in_features * 2;
          (model1, in_features, out_features) = downsampling 2 ([], in_features, out_features);
          model2 = residual_blocks n_residual_blocks in_features [];
          out_features = in_features div 2;
          (model3, in_features, out_features) = upsampling 2 ([], in_features, out_features);
          model4 = [ReflectionPad2d 3, Conv2d 64 output_nc 7 1 0];
          model4 = (if sigmoid then model4 @ [Sigmoid] else model4)
      in \<lparr>Generator.model0 = model0, model1 = model1, model2 = model2,
          model3 = model3, model4 = model4\<rparr>)"

text \<open>The \<^verbatim>\<open>nn.Sequential\<close> of residual blocks.\<close>

fun ResidualBlocks_forward ::
  "'t framework \<Rightarrow> path \<Rightarrow> nat \<Rightarrow> ResidualBlock list \<Rightarrow> 't \<Rightarrow> error + 't" where
  "ResidualBlocks_forward fw p i [] x = Inr x"
| "ResidualBlocks_forward fw p i (m # ms) x =
     and_then (ResidualBlock_forward fw (p @ [Index i]) m x)
       (ResidualBlocks_forward fw p (Suc i) ms)"

definition Generator_forward ::
  "'t framework \<Rightarrow> path \<Rightarrow> Generator \<Rightarrow> 't \<Rightarrow> error + 't" where
  "Generator_forward fw p self x =
     and_then (Sequential_forward fw (p @ [Name ''model0'']) 0 (Generator.model0 self) x)
       (\<lambda>out.
     and_then (Sequential_forward fw (p @ [Name ''model1'']) 0 (Generator.model1 self) out)
       (\<lambda>out.
     and_then (ResidualBlocks_forward fw (p @ [Name ''model2'']) 0 (Generator.model2 self) out)
       (\<lambda>out.
     and_then (Sequential_forward fw (p @ [Name ''model3'']) 0 (Generator.model3 self) out)
       (\<lambda>out. Sequential_forward fw (p @ [Name ''model4'']) 0 (Generator.model4 self) out))))"

section \<open>ResnetBlock and GlobalGenerator2\<close>

record ResnetBlock =
  conv_block :: "layer list"

text \<open>
  \<^verbatim>\<open>build_conv_block\<close>.  The parameter \<^verbatim>\<open>norm_layer\<close> of the source is a callable
  that builds the normalisation layer for a channel count; \<^verbatim>\<open>activation\<close> is a layer
  object.
\<close>

definition build_conv_block ::
  "nat \<Rightarrow> string \<Rightarrow> (nat \<Rightarrow> layer) \<Rightarrow> layer \<Rightarrow> bool \<Rightarrow> error + layer list" where
  "build_conv_block dim' padding_type norm_layer' activation use_dropout =
     (let conv_block = [];
          p = 0
      in
      and_then
        (if padding_type = ''reflect'' then Inr (conv_block @ [ReflectionPad2d 1], p)
         else if padding_type = ''replicate'' then Inr (conv_block @ [ReplicationPad2d 1], p)
         else if padding_type = ''zero'' then Inr (conv_block, 1)
         else Inl (NotImplementedError (''padding ['' @ padding_type @ ''] is not implemented'')))
        (\<lambda>(conv_block, p).
           let conv_block = conv_block @ [Conv2d dim' dim' 3 1 p, norm_layer' dim', activation];
               conv_block = (if use_dropout then conv_block @ [Dropout] else conv_block);
               p = 0
           in
           and_then
             (if padding_type = ''reflect'' then Inr (conv_block @ [ReflectionPad2d 1], p)
              else if padding_type = ''replicate'' then Inr (conv_block @ [ReplicationPad2d 1], p)
              else if padding_type = ''zero'' then Inr (conv_block, 1)
              else Inl (NotImplementedError
                     (''padding ['' @ padding_type @ ''] is not implemented'')))
             (\<lambda>(conv_block, p).
                Inr (conv_block @ [Conv2d dim' dim' 3 1 p, norm_layer' dim']))))"

definition ResnetBlock_init ::
  "nat \<Rightarrow> string \<Rightarrow> (nat \<Rightarrow> layer) \<Rightarrow> layer \<Rightarrow> bool \<Rightarrow> error + ResnetBlock" where
  "ResnetBlock_init dim' padding_type norm_layer' activation use_dropout =
     and_then (build_conv_block dim' padding_type norm_layer' activation use_dropout)
       (\<lambda>conv_block. Inr \<lparr>conv_block = conv_block\<rparr>)"

definition ResnetBlock_forward ::
  "'t framework \<Rightarrow> path \<Rightarrow> ResnetBlock \<Rightarrow> 't \<Rightarrow> error + 't" where
  "ResnetBlock_forward fw p self x =
     and_then (Sequential_forward fw (p @ [Name ''conv_block'']) 0 (conv_block self) x)
       (\<lambda>out. tensor_add fw x out)"

text \<open>
  The one \<^verbatim>\<open>nn.Sequential\<close> of \<^verbatim>\<open>GlobalGenerator2\<close> holds layers of the framework
  and \<^verbatim>\<open>ResnetBlock\<close>s.
\<close>

datatype module = Layer layer | Block ResnetBlock

text \<open>
  The three loops of its constructor, each a recursion on the iterations left over the
  variables \<^verbatim>\<open>(model, mult)\<close> the loop updates.  In Python
  \<^verbatim>\<open>ngf * mult // 2\<close> is \<^verbatim>\<open>(ngf * mult) // 2\<close>.
\<close>

fun downsample ::
  "nat \<Rightarrow> nat \<Rightarrow> (nat \<Rightarrow> layer) \<Rightarrow> layer \<Rightarrow> module list \<times> nat \<Rightarrow> module list \<times> nat" where
  "downsample 0 ngf norm_layer' activation st = st"
| "downsample (Suc n) ngf norm_layer' activation (model, mult) =
     downsample n ngf norm_layer' activation
       (model @ [Layer (ConvTranspose2d (ngf * mult) (ngf * mult div 2) 4 2 1 0),
                 Layer (norm_layer' (ngf * mult div 2)),
                 Layer activation],
        mult div 2)"

fun resnet_blocks ::
  "nat \<Rightarrow> nat \<Rightarrow> string \<Rightarrow> layer \<Rightarrow> (nat \<Rightarrow> layer) \<Rightarrow> module list \<Rightarrow> error + module list" where
  "resnet_blocks 0 dim' padding_type activation norm_layer' model = Inr model"
| "resnet_blocks (Suc n) dim' padding_type activation norm_layer' model =
     and_then (ResnetBlock_init dim' padding_type norm_layer' activation False)
       (\<lambda>b. resnet_blocks n dim' padding_type activation norm_layer' (model @ [Block b]))"

fun upsample ::
  "nat \<Rightarrow> nat \<Rightarrow> (nat \<Rightarrow> layer) \<Rightarrow> layer \<Rightarrow> module list \<times> nat \<Rightarrow> module list \<times> nat" where
  "upsample 0 ngf norm_layer' activation st = st"
| "upsample (Suc n) ngf norm_layer' activation (model, mult) =
     (let next_mult = mult div 2;
          (next_mult, mult) = (if next_mult = 0 then (1, 1) else (next_mult, mult))
      in upsample n ngf norm_layer' activation
           (model @ [Layer (ConvTranspose2d (ngf * mult) (ngf * next_mult) 3 2 1 1),
                     Layer (norm_layer' (ngf * next_mult)),
                     Layer activation],
            next_mult))"

record GlobalGenerator2 =
  model :: "module list"

text \<open>
  The counts \<^verbatim>\<open>n_downsampling\<close>, \<^verbatim>\<open>n_blocks\<close> and \<^verbatim>\<open>n_UPsampling\<close> are Python
  integers; \<^verbatim>\<open>range\<close> of a negative count is empty, as \<open>nat\<close> of it is 0.
\<close>

definition GlobalGenerator2_init ::
  "nat \<Rightarrow> nat \<Rightarrow> nat \<Rightarrow> int \<Rightarrow> int \<Rightarrow> (nat \<Rightarrow> layer) \<Rightarrow> string \<Rightarrow> bool \<Rightarrow> int
     \<Rightarrow> error + GlobalGenerator2" where
  "GlobalGenerator2_init input_nc output_nc ngf n_downsampling n_blocks norm_layer'
       padding_type use_sig n_UPsampling =
     (if \<not> n_blocks \<ge> 0 then Inl AssertionError
      else
        let activation = ReLU True;
            mult = 8;
            model = [Layer (ReflectionPad2d 4),
                     Layer (Conv2d input_nc (ngf * mult) 7 1 0),
                     Layer (norm_layer' (ngf * mult)),
                     Layer activation];
            (model, mult) = downsample (nat n_downsampling) ngf norm_layer' activation (model, mult);
            n_UPsampling = (if n_UPsampling \<le> 0 then n_downsampling else n_UPsampling)
        in
        and_then (resnet_blocks (nat n_blocks) (ngf * mult) padding_type activation norm_layer' model)
          (\<lambda>model.
             let (model, mult) = upsample (nat n_UPsampling) ngf norm_layer' activation (model, mult);
                 model =
                   (if use_sig
                    then model @ [Layer (ReflectionPad2d 3), Layer (Conv2d ngf output_nc 7 1 0),
                                  Layer Sigmoid]
                    else model @ [Layer (ReflectionPad2d 3), Layer (Conv2d ngf output_nc 7 1 0),
                                  Layer Tanh])
             in Inr \<lparr>model = model\<rparr>))"

fun modules_forward ::
  "'t framework \<Rightarrow> path \<Rightarrow> nat \<Rightarrow> module list \<Rightarrow> 't \<Rightarrow> error + 't" where
  "modules_forward fw p i [] x = Inr x"
| "modules_forward fw p i (Layer m # ms) x =
     and_then (run_layer fw (p @ [Index i]) m x) (modules_forward fw p (Suc i) ms)"
| "modules_forward fw p i (Block m # ms) x =
     and_then (ResnetBlock_forward fw (p @ [Index i]) m x) (modules_forward fw p (Suc i) ms)"

definition GlobalGenerator2_forward ::
  "'t framework \<Rightarrow> path \<Rightarrow> GlobalGenerator2 \<Rightarrow> 't \<Rightarrow> error + 't" where
  "GlobalGenerator2_forward fw p self input = modules_forward fw (p @ [Name ''model'']) 0 (model self) input"

section \<open>Shapes\<close>

text \<open>
  A feature map has the shape \<open>(N, C, H, W)\<close>.  The shape a layer of the framework
  returns follows the framework's documented rules:
  \<^item> padding by \<open>p\<close> adds \<open>2 * p\<close> to \<open>H\<close> and \<open>W\<close>; reflection needs \<open>p < H\<close> and
    \<open>p < W\<close>, replication a non-empty map;
  \<^item> a convolution needs \<open>C\<close> equal to its input channels and a padded input no smaller
    than the kernel, and returns \<open>(H + 2 * padding - kernel) div stride + 1\<close> rows;
  \<^item> a transposed convolution returns
    \<open>(H - 1) * stride - 2 * padding + kernel + output_padding\<close> rows, and needs the output
    padding below the stride;
  \<^item> instance normalisation keeps the shape; it checks \<open>C\<close> only when it is affine, and
    always rejects a map with a single spatial element;
  \<^item> batch normalisation keeps the shape; it needs \<open>C\<close> equal to its features and, in
    training mode, more than one value per channel;
  \<^item> activations and dropout keep the shape.
  The flag is the training mode of the module.
\<close>

type_synonym shape = "nat \<times> nat \<times> nat \<times> nat"

fun shape_layer :: "bool \<Rightarrow> layer \<Rightarrow> shape \<Rightarrow> error + shape" where
  "shape_layer training (ReflectionPad2d p) (n, c, h, w) =
     (if p < h \<and> p < w then Inr (n, c, h + 2 * p, w + 2 * p) else Inl FrameworkError)"
| "shape_layer training (ReplicationPad2d p) (n, c, h, w) =
     (if 0 < h \<and> 0 < w then Inr (n, c, h + 2 * p, w + 2 * p) else Inl FrameworkError)"
| "shape_layer training (Conv2d c_in c_out k s p) (n, c, h, w) =
     (if c = c_in \<and> 0 < k \<and> 0 < s \<and> k \<le> h + 2 * p \<and> k \<le> w + 2 * p
      then Inr (n, c_out, (h + 2 * p - k) div s + 1, (w + 2 * p - k) div s + 1)
      else Inl FrameworkError)"
| "shape_layer training (ConvTranspose2d c_in c_out k s p op) (n, c, h, w) =
     (if c = c_in \<and> 0 < k \<and> 0 < s \<and> op < s \<and> 0 < h \<and> 0 < w
         \<and> 2 * p < (h - 1) * s + k + op \<and> 2 * p < (w - 1) * s + k + op
      then Inr (n, c_out, (h - 1) * s + k + op - 2 * p, (w - 1) * s + k + op - 2 * p)
      else Inl FrameworkError)"
| "shape_layer training (InstanceNorm2d num_features affine) (n, c, h, w) =
     (if (if affine then c = num_features else True) \<and> h * w \<noteq> 1
      then Inr (n, c, h, w) else Inl FrameworkError)"
| "shape_layer training (BatchNorm2d num_features affine) (n, c, h, w) =
     (if c = num_features \<and> (if training then n * h * w \<noteq> 1 else True)
      then Inr (n, c, h, w) else Inl FrameworkError)"
| "shape_layer training (ReLU inplace) sh = Inr sh"
| "shape_layer training Sigmoid sh = Inr sh"
| "shape_layer training Tanh sh = Inr sh"
| "shape_layer training Dropout sh = Inr sh"

text \<open>
  Broadcasting of two shapes, as the element-wise operations do it: two sizes go
  together when they are equal or one of them is 1.
\<close>

definition broadcast_dim :: "nat \<Rightarrow> nat \<Rightarrow> nat option" where
  "broadcast_dim a b = (if a = b then Some a else if a = 1 then Some b else if b = 1 then Some a else None)"

fun shape_broadcast :: "shape \<Rightarrow> shape \<Rightarrow> error + shape" where
  "shape_broadcast (n, c, h, w) (n', c', h', w') =
     (case (broadcast_dim n n', broadcast_dim c c', broadcast_dim h h', broadcast_dim w w') of
        (Some a, Some b, Some d, Some e) \<Rightarrow> Inr (a, b, d, e)
      | _ \<Rightarrow> Inl FrameworkError)"

text \<open>
  Nearest-neighbour interpolation of \<open>segmap\<close> to the spatial size of \<open>x\<close>: batch and
  channels of \<open>segmap\<close>, rows and columns of \<open>x\<close>; no size may be 0.
\<close>

fun shape_interpolate :: "shape \<Rightarrow> shape \<Rightarrow> error + shape" where
  "shape_interpolate (n', c', h', w') (n, c, h, w) =
     (if 0 < h' \<and> 0 < w' \<and> 0 < h \<and> 0 < w then Inr (n', c', h, w) else Inl FrameworkError)"

text \<open>
  The framework, read on shapes.  The tensor with a single element has the shape
  \<open>(1)\<close>, which broadcasts against a feature map as \<open>(1, 1, 1, 1)\<close> does.
\<close>

definition shape_framework :: "bool \<Rightarrow> shape framework" where
  "shape_framework training =
     \<lparr>run_layer = (\<lambda>p. shape_layer training),
      interpolate_nearest = shape_interpolate,
      tensor_add = shape_broadcast,
      tensor_mul = shape_broadcast,
      scalar_add = (\<lambda>c sh. sh),
      scalar_mul = (\<lambda>sh c. sh),
      full1 = (\<lambda>like v. (1, 1, 1, 1))\<rparr>"

section \<open>InceptionV3\<close>

text \<open>
  The wrapped network comes from \<^verbatim>\<open>torchvision\<close>; its batch normalisations keep
  running statistics and its dropout draws random numbers, so a sub-module is a step
  on a state \<open>'s\<close> (buffers and random generator) that returns a tensor or raises.
\<close>

type_synonym ('a, 's) run = "'s \<Rightarrow> error + 'a \<times> 's"

definition then_run :: "('a, 's) run \<Rightarrow> ('a \<Rightarrow> ('b, 's) run) \<Rightarrow> ('b, 's) run" where
  "then_run m f s = (case m s of Inl e \<Rightarrow> Inl e | Inr (x, s') \<Rightarrow> f x s')"

definition return_run :: "'a \<Rightarrow> ('a, 's) run" where
  "return_run x s = Inr (x, s)"





text \<open>
  The freezing loop of the constructor.  A parameter is a tensor object, named here by
  a number; \<open>requires_grad\<close> is the flag each one carries.  The wrapped network is
  given by what \<^verbatim>\<open>child.parameters()\<close> lists for each of its children, in the order of
  \<^verbatim>\<open>children()\<close>.
\<close>

type_synonym param = nat

fun freeze_child :: "param list \<Rightarrow> (param \<Rightarrow> bool) \<Rightarrow> (param \<Rightarrow> bool)" where
  "freeze_child [] requires_grad = requires_grad"
| "freeze_child (param # params) requires_grad =
     freeze_child params (requires_grad(param := False))"

fun freeze_children :: "param list list \<Rightarrow> nat \<Rightarrow> (param \<Rightarrow> bool) \<Rightarrow> (param \<Rightarrow> bool)" where
  "freeze_children [] stop requires_grad = requires_grad"
| "freeze_children (child # children) stop requires_grad =
     freeze_children children (stop + 1)
       (if stop < 17 then freeze_child child requires_grad else requires_grad)"

definition InceptionV3_freeze ::
  "bool \<Rightarrow> bool \<Rightarrow> param list list \<Rightarrow> (param \<Rightarrow> bool) \<Rightarrow> (param \<Rightarrow> bool)" where
  "InceptionV3_freeze pretrain freeze children requires_grad =
     (let stop = 0 in
      if freeze \<and> pretrain then freeze_children children stop requires_grad
      else requires_grad)"





text \<open>
  \<^verbatim>\<open>nn.BatchNorm2d\<close> as the callable that \<open>GlobalGenerator2\<close> takes by default: called
  with the number of features only, it builds an affine layer.
\<close>

definition nn_BatchNorm2d :: "nat \<Rightarrow> layer" where
  "nn_BatchNorm2d num_features = BatchNorm2d num_features True"

text \<open>
  The three modules that one iteration of the \<^verbatim>\<open>downsample\<close> loop appends when the
  multiplier is \<open>mult\<close>.
\<close>

definition downsample_stage :: "nat \<Rightarrow> (nat \<Rightarrow> layer) \<Rightarrow> layer \<Rightarrow> nat \<Rightarrow> module list" where
  "downsample_stage ngf norm_layer' activation mult =
     [Layer (ConvTranspose2d (ngf * mult) (ngf * mult div 2) 4 2 1 0),
      Layer (norm_layer' (ngf * mult div 2)),
      Layer activation]"

section \<open>Basic facts\<close>

lemma and_then_Inr [simp]: "and_then (Inr x) f = f x"
  by (simp add: and_then_def)

lemma and_then_Inl [simp]: "and_then (Inl e) f = Inl e"
  by (simp add: and_then_def)

lemma re_search_foo: "re_search ''spadefoo3x3'' = Some (''foo'', CHR ''3'')"
  by (simp add: match_here_def startswith_def is_digit_def)

lemma SPADE_init_instance3:
  "SPADE_init ''spadeinstance3x3'' c l =
     Inr \<lparr>param_free_norm = InstanceNorm2d c False,
          mlp_shared = [Conv2d l 128 3 1 1, ReLU False],
          mlp_gamma = Conv2d 128 c 3 1 1,
          mlp_beta = Conv2d 128 c 3 1 1\<rparr>"
  by (simp add: SPADE_init_def match_here_def startswith_def is_digit_def int_of_digit_def)

section \<open>The normalisation type of a SPADE configuration\<close>

text \<open>
  Claim C4.  Take a configuration string that starts with \<open>spade\<close> and that the
  pattern matches, with the normalisation type \<open>ty\<close> and the kernel digit \<open>d\<close>.  If
  \<open>ty\<close> is neither \<open>instance\<close> nor \<open>batch\<close>, the constructor raises the
  \<open>ValueError\<close> whose message starts with \<open>ty\<close>, and builds nothing.  If \<open>ty\<close> is
  \<open>instance\<close> or \<open>batch\<close>, the constructor returns the block, with the instance or
  the batch normalisation (without affine parameters) as its parameter-free norm.
\<close>

theorem SPADE_init_norm_type:
  assumes "startswith config_text ''spade''"
    and "re_search config_text = Some (ty, d)"
  shows "(ty \<noteq> ''instance'' \<and> ty \<noteq> ''batch'' \<longrightarrow>
           SPADE_init config_text norm_nc label_nc =
             Inl (ValueError (ty @ '' is not a recognized param-free norm type in SPADE'')))
       \<and> (ty = ''instance'' \<longrightarrow>
           SPADE_init config_text norm_nc label_nc =
             Inr \<lparr>param_free_norm = InstanceNorm2d norm_nc False,
                  mlp_shared = [Conv2d label_nc 128 (int_of_digit d) 1 (int_of_digit d div 2),
                                ReLU False],
                  mlp_gamma = Conv2d 128 norm_nc (int_of_digit d) 1 (int_of_digit d div 2),
                  mlp_beta = Conv2d 128 norm_nc (int_of_digit d) 1 (int_of_digit d div 2)\<rparr>)
       \<and> (ty = ''batch'' \<longrightarrow>
           SPADE_init config_text norm_nc label_nc =
             Inr \<lparr>param_free_norm = BatchNorm2d norm_nc False,
                  mlp_shared = [Conv2d label_nc 128 (int_of_digit d) 1 (int_of_digit d div 2),
                                ReLU False],
                  mlp_gamma = Conv2d 128 norm_nc (int_of_digit d) 1 (int_of_digit d div 2),
                  mlp_beta = Conv2d 128 norm_nc (int_of_digit d) 1 (int_of_digit d div 2)\<rparr>)"
  using assms by (simp add: SPADE_init_def Let_def)

theorem SPADE_init_norm_type_witness:
  "SPADE_init ''spadefoo3x3'' 64 3 =
     Inl (ValueError ''foo is not a recognized param-free norm type in SPADE'')"
proof -
  have a: "startswith ''spadefoo3x3'' ''spade''"
    by (simp add: startswith_def)
  from SPADE_init_norm_type [OF a re_search_foo, of 64 3] show ?thesis
    by simp
qed

section \<open>The padding mode of a ResnetBlock\<close>

text \<open>
  Claim C5.  A padding type other than \<open>reflect\<close>, \<open>replicate\<close> and \<open>zero\<close> makes the
  constructor of \<open>ResnetBlock\<close> raise \<open>NotImplementedError\<close> with the padding type in
  its message.  Each of the three recognised types builds the block: \<open>reflect\<close> and
  \<open>replicate\<close> put a padding layer of width 1 before each of the two convolutions,
  which then pad by 0; \<open>zero\<close> adds no layer and gives both convolutions the padding 1.
\<close>

theorem ResnetBlock_init_padding_type:
  "(padding_type \<noteq> ''reflect'' \<and> padding_type \<noteq> ''replicate'' \<and> padding_type \<noteq> ''zero'' \<longrightarrow>
      ResnetBlock_init dim' padding_type norm_layer' activation use_dropout =
        Inl (NotImplementedError (''padding ['' @ padding_type @ ''] is not implemented'')))
   \<and> ResnetBlock_init dim' ''reflect'' norm_layer' activation use_dropout =
        Inr \<lparr>conv_block =
          [ReflectionPad2d 1, Conv2d dim' dim' 3 1 0, norm_layer' dim', activation]
          @ (if use_dropout then [Dropout] else [])
          @ [ReflectionPad2d 1, Conv2d dim' dim' 3 1 0, norm_layer' dim']\<rparr>
   \<and> ResnetBlock_init dim' ''replicate'' norm_layer' activation use_dropout =
        Inr \<lparr>conv_block =
          [ReplicationPad2d 1, Conv2d dim' dim' 3 1 0, norm_layer' dim', activation]
          @ (if use_dropout then [Dropout] else [])
          @ [ReplicationPad2d 1, Conv2d dim' dim' 3 1 0, norm_layer' dim']\<rparr>
   \<and> ResnetBlock_init dim' ''zero'' norm_layer' activation use_dropout =
        Inr \<lparr>conv_block =
          [Conv2d dim' dim' 3 1 1, norm_layer' dim', activation]
          @ (if use_dropout then [Dropout] else [])
          @ [Conv2d dim' dim' 3 1 1, norm_layer' dim']\<rparr>"
  by (simp add: ResnetBlock_init_def build_conv_block_def Let_def)

theorem ResnetBlock_init_padding_type_witness:
  "ResnetBlock_init 64 ''circular'' norm_layer (ReLU True) False =
     Inl (NotImplementedError ''padding [circular] is not implemented'')"
  using ResnetBlock_init_padding_type [of "''circular''" 64 norm_layer "ReLU True" False]
  by simp

section \<open>The sign argument of the conditioned generator\<close>

text \<open>
  Claim C10.  For a \<open>sign\<close> other than 0, 1 and 2, the choice of the condition map
  raises nothing and leaves \<open>depth\<close> as it is: the forward pass is the one for
  \<open>sign = 1\<close>, on the same draw.
\<close>

theorem SPADEGenerator_forward_sign_other:
  assumes "sign \<noteq> 0" and "sign \<noteq> 1" and "sign \<noteq> 2"
  shows "SPADEGenerator_forward fw p self u x depth sign = SPADEGenerator_body fw p self x depth
       \<and> SPADEGenerator_forward fw p self u x depth sign =
         SPADEGenerator_forward fw p self u x depth 1"
  using assms by (simp add: SPADEGenerator_forward_def Let_def)

theorem SPADEGenerator_forward_sign_other_witness:
  "SPADEGenerator_forward (shape_framework True) [] (projr (SPADEGenerator_init 3 1 9 True))
      (1 / 2) (1, 3, 8, 8) (1, 3, 8, 8) 7 =
   SPADEGenerator_forward (shape_framework True) [] (projr (SPADEGenerator_init 3 1 9 True))
      (1 / 2) (1, 3, 8, 8) (1, 3, 8, 8) 1"
proof -
  have "(7::int) \<noteq> 0" "(7::int) \<noteq> 1" "(7::int) \<noteq> 2" by simp_all
  from SPADEGenerator_forward_sign_other [OF this, of "shape_framework True" "[]"
      "projr (SPADEGenerator_init 3 1 9 True)" "1 / 2" "(1, 3, 8, 8)" "(1, 3, 8, 8)"]
  show ?thesis by (rule conjunct2)
qed




section \<open>Skip connections\<close>



section \<open>Freezing the first children of the wrapped network\<close>

lemma freeze_child_apply:
  "freeze_child params requires_grad q = (if q \<in> set params then False else requires_grad q)"
  by (induction params arbitrary: requires_grad) auto

lemma freeze_children_apply:
  "freeze_children children stop requires_grad q =
     (if \<exists>child \<in> set (take (17 - stop) children). q \<in> set child then False
      else requires_grad q)"
proof (induction children arbitrary: stop requires_grad)
  case Nil
  then show ?case by simp
next
  case (Cons child children)
  show ?case
  proof (cases "stop < 17")
    case True
    then have "17 - stop = Suc (17 - (stop + 1))" by simp
    then show ?thesis using True Cons.IH [of "stop + 1"]
      by (auto simp: freeze_child_apply)
  next
    case False
    then show ?thesis using Cons.IH [of "stop + 1"] by simp
  qed
qed

text \<open>
  Claim C9.  After the freezing loop, a parameter has \<open>requires_grad\<close> off if
  \<open>freeze\<close> and \<open>pretrain\<close> are both set and it is a parameter of one of the first 17
  children; every other parameter keeps the flag it had.  So with \<open>freeze\<close> or
  \<open>pretrain\<close> unset no flag changes, and the parameters that only later children hold
  are never touched.
\<close>

theorem InceptionV3_freeze_prefix:
  "InceptionV3_freeze pretrain freeze children requires_grad q =
     (if freeze \<and> pretrain \<and> (\<exists>child \<in> set (take 17 children). q \<in> set child) then False
      else requires_grad q)"
  by (simp add: InceptionV3_freeze_def freeze_children_apply)

theorem InceptionV3_freeze_prefix_witness:
  "InceptionV3_freeze True True
      [[0], [1], [2], [], [3], [4], [], [5], [6], [7], [8], [9], [10], [11], [12], [13], [14],
       [15], [16], [], [], [17]] (\<lambda>q. True) 14 = False
   \<and> InceptionV3_freeze True True
      [[0], [1], [2], [], [3], [4], [], [5], [6], [7], [8], [9], [10], [11], [12], [13], [14],
       [15], [16], [], [], [17]] (\<lambda>q. True) 15 = True
   \<and> InceptionV3_freeze False True [[0], [1]] (\<lambda>q. True) 0 = True"
  using InceptionV3_freeze_prefix [of True True
      "[[0], [1], [2], [], [3], [4], [], [5], [6], [7], [8], [9], [10], [11], [12], [13], [14],
        [15], [16], [], [], [17]]" "\<lambda>q. True" 14]
    InceptionV3_freeze_prefix [of True True
      "[[0], [1], [2], [], [3], [4], [], [5], [6], [7], [8], [9], [10], [11], [12], [13], [14],
        [15], [16], [], [], [17]]" "\<lambda>q. True" 15]
    InceptionV3_freeze_prefix [of False True "[[0], [1]]" "\<lambda>q. True" 0]
  by simp

section \<open>The two return modes of InceptionV3\<close>


lemma then_run_return: "then_run (return_run x) f = f x"
  by (rule ext) (simp add: then_run_def return_run_def)






section \<open>Shapes through SPADE\<close>

lemma run_layer_shape [simp]: "run_layer (shape_framework tr) p l = shape_layer tr l"
  by (simp add: shape_framework_def)

lemma shape_ops [simp]:
  "interpolate_nearest (shape_framework tr) = shape_interpolate"
  "tensor_add (shape_framework tr) = shape_broadcast"
  "tensor_mul (shape_framework tr) = shape_broadcast"
  "scalar_add (shape_framework tr) c sh = sh"
  "scalar_mul (shape_framework tr) sh c = sh"
  "full1 (shape_framework tr) sh v = (1, 1, 1, 1)"
  by (simp_all add: shape_framework_def)

lemma shape_broadcast_same [simp]: "shape_broadcast sh sh = Inr sh"
  by (cases sh) (simp add: broadcast_dim_def)

lemma shape_broadcast_one [simp]: "shape_broadcast sh (Suc 0, Suc 0, Suc 0, Suc 0) = Inr sh"
  by (cases sh) (simp add: broadcast_dim_def)

lemma conv_same:
  assumes "odd k" "0 < h" "0 < w"
  shows "shape_layer tr (Conv2d c c_out k (Suc 0) (k div 2)) (n, c, h, w) = Inr (n, c_out, h, w)"
proof -
  from assms(1) obtain j where k: "k = 2 * j + 1" by (auto elim: oddE)
  then have "k div 2 = j" by simp
  with k assms(2,3) show ?thesis by simp
qed

lemma norm_shape:
  assumes "l = InstanceNorm2d c False \<or> l = BatchNorm2d c False" "0 < h" "0 < w" "h * w \<noteq> 1"
  shows "shape_layer tr l (n, c, h, w) = Inr (n, c, h, w)"
  using assms by auto

lemma SPADE_forward_shape:
  assumes "param_free_norm S = InstanceNorm2d c False \<or> param_free_norm S = BatchNorm2d c False"
    and "mlp_shared S = [Conv2d l 128 k 1 (k div 2), ReLU False]"
    and "mlp_gamma S = Conv2d 128 c k 1 (k div 2)"
    and "mlp_beta S = Conv2d 128 c k 1 (k div 2)"
    and "odd k" "0 < h" "0 < w" "h * w \<noteq> 1" "0 < h'" "0 < w'"
  shows "SPADE_forward (shape_framework tr) p S (n, c, h, w) (n, l, h', w') = Inr (n, c, h, w)"
proof -
  have norm: "shape_layer tr (param_free_norm S) (n, c, h, w) = Inr (n, c, h, w)"
    using assms(1,6,7,8) by (rule norm_shape)
  have interp: "shape_interpolate (n, l, h', w') (n, c, h, w) = Inr (n, l, h, w)"
    using assms(6,7,9,10) by simp
  have relu: "shape_layer tr (ReLU b) sh = Inr sh" for b sh
    by simp
  have shared: "Sequential_forward (shape_framework tr) q 0 (mlp_shared S) (n, l, h, w)
      = Inr (n, 128, h, w)" for q
    using assms(5,6,7) by (simp add: assms(2) conv_same relu del: shape_layer.simps)
  have gamma: "shape_layer tr (mlp_gamma S) (n, 128, h, w) = Inr (n, c, h, w)"
    using assms(5,6,7) by (simp add: assms(3) conv_same del: shape_layer.simps)
  have beta: "shape_layer tr (mlp_beta S) (n, 128, h, w) = Inr (n, c, h, w)"
    using assms(5,6,7) by (simp add: assms(4) conv_same del: shape_layer.simps)
  show ?thesis
    by (simp add: SPADE_forward_def norm interp shared gamma beta
          del: shape_layer.simps shape_interpolate.simps)
qed




section \<open>Shapes through the generators\<close>

text \<open>
  The two stride-2 convolutions take \<open>H\<close> rows to \<open>(H + 3) div 4\<close>, and the two
  transposed convolutions multiply that by 4; the other stages keep the size.
\<close>

lemma stem_shape:
  assumes "3 < h" "3 < w"
  shows "Sequential_forward (shape_framework tr) q 0
           [ReflectionPad2d 3, Conv2d c 64 7 1 0, norm_layer 64, ReLU True] (n, c, h, w) =
         Inr (n, 64, h, w)"
  using assms by (simp add: norm_layer_def)

lemma downsampling_2:
  "downsampling 2 ([], 64, 128) =
     ([Conv2d 64 128 3 2 1, norm_layer 128, ReLU True,
       Conv2d 128 256 3 2 1, norm_layer 256, ReLU True], 256, 512)"
  by (simp add: numeral_2_eq_2)

lemma upsampling_2:
  "upsampling 2 ([], 256, 128) =
     ([ConvTranspose2d 256 128 3 2 1 1, norm_layer 128, ReLU True,
       ConvTranspose2d 128 64 3 2 1 1, norm_layer 64, ReLU True], 64, 32)"
  by (simp add: numeral_2_eq_2, simp add: numeral_2_eq_2 [symmetric])

lemma quarter: "0 < h \<Longrightarrow> Suc ((h - Suc 0) div 2 div 2) = (h + 3) div 4"
proof -
  assume "0 < h"
  then obtain m where h: "h = Suc m" by (cases h) auto
  have "m div 2 div 2 = m div 4" by (simp add: div_mult2_eq [symmetric])
  moreover have "(Suc m + 3) div 4 = Suc (m div 4)" by simp
  ultimately show ?thesis by (simp add: h)
qed

lemma fourfold: "0 < h \<Longrightarrow> 4 + 4 * (h - Suc 0) = 4 * h"
  by (cases h) simp_all

lemma model1_shape:
  assumes "4 < h" "4 < w"
  shows "Sequential_forward (shape_framework tr) q 0
           [Conv2d 64 128 3 2 1, norm_layer 128, ReLU True,
            Conv2d 128 256 3 2 1, norm_layer 256, ReLU True] (n, 64, h, w) =
         Inr (n, 256, (h + 3) div 4, (w + 3) div 4)"
  using assms by (simp add: norm_layer_def quarter)

lemma ResidualBlock_shape:
  assumes "1 < h" "1 < w"
  shows "ResidualBlock_forward (shape_framework tr) q (ResidualBlock_init c) (n, c, h, w) =
         Inr (n, c, h, w)"
  using assms by (simp add: ResidualBlock_forward_def ResidualBlock_init_def norm_layer_def)

lemma model3_shape:
  assumes "1 < h" "1 < w"
  shows "Sequential_forward (shape_framework tr) q 0
           [ConvTranspose2d 256 128 3 2 1 1, norm_layer 128, ReLU True,
            ConvTranspose2d 128 64 3 2 1 1, norm_layer 64, ReLU True] (n, 256, h, w) =
         Inr (n, 64, 4 * h, 4 * w)"
  using assms by (simp add: norm_layer_def fourfold)

lemma model4_shape:
  assumes "3 < h" "3 < w"
  shows "Sequential_forward (shape_framework tr) q 0
           (if sigmoid then [ReflectionPad2d 3, Conv2d 64 c 7 1 0] @ [Sigmoid]
            else [ReflectionPad2d 3, Conv2d 64 c 7 1 0]) (n, 64, h, w) =
         Inr (n, c, h, w)"
  using assms by simp


lemma residual_blocks_replicate:
  "residual_blocks k c acc = acc @ replicate k (ResidualBlock_init c)"
  by (induction k arbitrary: acc) (simp_all add: replicate_app_Cons_same)

lemma ResidualBlocks_shape:
  assumes "1 < h" "1 < w"
  shows "ResidualBlocks_forward (shape_framework tr) q i (replicate k (ResidualBlock_init c))
           (n, c, h, w) = Inr (n, c, h, w)"
  using assms by (induction k arbitrary: i) (simp_all add: ResidualBlock_shape)

lemma Generator_forward_shape:
  assumes "4 < h" "4 < w"
  shows "Generator_forward (shape_framework tr) p (Generator_init input_nc output_nc k sigmoid)
           (n, input_nc, h, w) =
         Inr (n, output_nc, 4 * ((h + 3) div 4), 4 * ((w + 3) div 4))"
proof -
  from assms have a: "3 < h" "3 < w" "1 < (h + 3) div 4" "1 < (w + 3) div 4"
    "3 < 4 * ((h + 3) div 4)" "3 < 4 * ((w + 3) div 4)" by auto
  have init: "Generator_init input_nc output_nc k sigmoid =
     \<lparr>Generator.model0 = [ReflectionPad2d 3, Conv2d input_nc 64 7 1 0, norm_layer 64, ReLU True],
      model1 = [Conv2d 64 128 3 2 1, norm_layer 128, ReLU True,
                Conv2d 128 256 3 2 1, norm_layer 256, ReLU True],
      model2 = replicate k (ResidualBlock_init 256),
      model3 = [ConvTranspose2d 256 128 3 2 1 1, norm_layer 128, ReLU True,
                ConvTranspose2d 128 64 3 2 1 1, norm_layer 64, ReLU True],
      model4 = (if sigmoid then [ReflectionPad2d 3, Conv2d 64 output_nc 7 1 0] @ [Sigmoid]
                else [ReflectionPad2d 3, Conv2d 64 output_nc 7 1 0])\<rparr>"
    by (simp add: Generator_init_def Let_def downsampling_2 upsampling_2 residual_blocks_replicate
        del: downsampling.simps upsampling.simps)
  show ?thesis
    unfolding Generator_forward_def init
    by (simp only: Generator.simps stem_shape [OF a(1,2)] model1_shape [OF assms]
        ResidualBlocks_shape [OF a(3,4)] model3_shape [OF a(3,4)] model4_shape [OF a(5,6)]
        and_then_Inr)
qed


lemma SPADE_instance3_shape:
  assumes "0 < h" "0 < w" "h * w \<noteq> 1" "0 < h'" "0 < w'"
  shows "SPADE_forward (shape_framework tr) p (projr (SPADE_init ''spadeinstance3x3'' c l))
           (n, c, h, w) (n, l, h', w') = Inr (n, c, h, w)"
proof -
  have "(3::nat) div 2 = 1" by simp
  then show ?thesis
    using assms by (intro SPADE_forward_shape [where k = 3]) (simp_all add: SPADE_init_instance3)
qed

lemma SPADEResidualBlock_init_eq:
  "SPADEResidualBlock_init c =
     Inr \<lparr>conv_block0 = [ReflectionPad2d 1, Conv2d c c 3 1 0],
          norm_layer0 = projr (SPADE_init ''spadeinstance3x3'' c 3),
          conv_block1 = [ReLU True, ReflectionPad2d 1, Conv2d c c 3 1 0],
          norm_layer1 = projr (SPADE_init ''spadeinstance3x3'' c 3)\<rparr>"
  by (simp add: SPADEResidualBlock_init_def SPADE_init_instance3)

lemma pad_conv3_shape:
  assumes "1 < h" "1 < w"
  shows "Sequential_forward (shape_framework tr) q i [ReflectionPad2d 1, Conv2d c c' 3 1 0]
           (n, c, h, w) = Inr (n, c', h, w)"
    and "Sequential_forward (shape_framework tr) q i [ReLU True, ReflectionPad2d 1, Conv2d c c' 3 1 0]
           (n, c, h, w) = Inr (n, c', h, w)"
  using assms by simp_all

lemma SPADEResidualBlock_shape:
  assumes "1 < h" "1 < w" "0 < h'" "0 < w'"
  shows "SPADEResidualBlock_forward (shape_framework tr) q (projr (SPADEResidualBlock_init c))
           (n, c, h, w) (n, 3, h', w') = Inr (n, c, h, w)"
proof -
  from assms have a: "0 < h" "0 < w" "h * w \<noteq> 1" by auto
  show ?thesis
    by (simp only: SPADEResidualBlock_forward_def SPADEResidualBlock_init_eq sum.sel
        SPADEResidualBlock.simps pad_conv3_shape [OF assms(1,2)]
        SPADE_instance3_shape [OF a assms(3,4)] and_then_Inr shape_ops shape_broadcast_same)
qed

lemma SPADE_residual_blocks_replicate:
  "SPADE_residual_blocks k c acc = Inr (acc @ replicate k (projr (SPADEResidualBlock_init c)))"
  by (induction k arbitrary: acc) (simp_all add: SPADEResidualBlock_init_eq replicate_app_Cons_same)

lemma model2_shape:
  assumes "1 < h" "1 < w" "0 < h'" "0 < w'"
  shows "model2_forward (shape_framework tr) q i (replicate k (projr (SPADEResidualBlock_init c)))
           (n, c, h, w) (n, 3, h', w') = Inr (n, c, h, w)"
  using assms by (induction k arbitrary: i) (simp_all add: SPADEResidualBlock_shape)

lemma SPADE_upsampling_2:
  "SPADE_upsampling 2 ([], 256, 128) =
     Inr ([Plain (ConvTranspose2d 256 128 3 2 1 1),
           Cond (projr (SPADE_init ''spadeinstance3x3'' 128 3)),
           Plain (ReLU True),
           Plain (ConvTranspose2d 128 64 3 2 1 1),
           Cond (projr (SPADE_init ''spadeinstance3x3'' 64 3)),
           Plain (ReLU True)], 64, 32)"
  by (simp add: numeral_2_eq_2 SPADE_init_instance3, simp add: numeral_2_eq_2 [symmetric])

lemma up_shape:
  assumes "0 < h" "0 < w"
  shows "shape_layer tr (ConvTranspose2d c c_out 3 2 1 1) (n, c, h, w) =
         Inr (n, c_out, 2 * h, 2 * w)"
proof -
  have "(h - 1) * 2 + 3 + 1 - 2 = 2 * h" if "0 < h" for h :: nat
    using that by (cases h) simp_all
  with assms show ?thesis by simp
qed

lemma SPADE_model3_shape:
  assumes "1 < h" "1 < w" "0 < h'" "0 < w'"
  shows "model3_forward (shape_framework tr) q 0
           [Plain (ConvTranspose2d 256 128 3 2 1 1),
            Cond (projr (SPADE_init ''spadeinstance3x3'' 128 3)),
            Plain (ReLU True),
            Plain (ConvTranspose2d 128 64 3 2 1 1),
            Cond (projr (SPADE_init ''spadeinstance3x3'' 64 3)),
            Plain (ReLU True)] (n, 256, h, w) (n, 3, h', w') =
         Inr (n, 64, 4 * h, 4 * w)"
proof -
  from assms have a: "0 < h" "0 < w" by auto
  from assms have b: "0 < 2 * h" "0 < 2 * w" "2 * h * (2 * w) \<noteq> 1" by auto
  from assms have c: "0 < 4 * h" "0 < 4 * w" "4 * h * (4 * w) \<noteq> 1" by auto
  have d: "2 * (2 * h) = 4 * h" "2 * (2 * w) = 4 * w" by simp_all
  have relu: "shape_layer tr (ReLU True) sh = Inr sh" for sh by simp
  show ?thesis
    by (simp only: model3_forward.simps run_layer_shape up_shape [OF a] up_shape [OF b(1,2)]
        SPADE_instance3_shape [OF b assms(3,4)] SPADE_instance3_shape [OF c assms(3,4)]
        and_then_Inr relu d)
qed


lemma SPADEGenerator_init_eq:
  "SPADEGenerator_init input_nc output_nc k sigmoid =
     Inr \<lparr>SPADEGenerator.model0 =
            [ReflectionPad2d 3, Conv2d input_nc 64 7 1 0, norm_layer 64, ReLU True],
          model1 = [Conv2d 64 128 3 2 1, norm_layer 128, ReLU True,
                    Conv2d 128 256 3 2 1, norm_layer 256, ReLU True],
          model2 = replicate k (projr (SPADEResidualBlock_init 256)),
          model3 = [Plain (ConvTranspose2d 256 128 3 2 1 1),
                    Cond (projr (SPADE_init ''spadeinstance3x3'' 128 3)),
                    Plain (ReLU True),
                    Plain (ConvTranspose2d 128 64 3 2 1 1),
                    Cond (projr (SPADE_init ''spadeinstance3x3'' 64 3)),
                    Plain (ReLU True)],
          model4 = (if sigmoid then [ReflectionPad2d 3, Conv2d 64 output_nc 7 1 0] @ [Sigmoid]
                    else [ReflectionPad2d 3, Conv2d 64 output_nc 7 1 0])\<rparr>"
  by (simp add: SPADEGenerator_init_def Let_def downsampling_2 SPADE_upsampling_2
      SPADE_residual_blocks_replicate del: downsampling.simps SPADE_upsampling.simps)

lemma SPADEGenerator_body_shape:
  assumes "4 < h" "4 < w" "0 < h'" "0 < w'"
  shows "SPADEGenerator_body (shape_framework tr) p
           (projr (SPADEGenerator_init input_nc output_nc k sigmoid))
           (n, input_nc, h, w) (n, 3, h', w') =
         Inr (n, output_nc, 4 * ((h + 3) div 4), 4 * ((w + 3) div 4))"
proof -
  from assms have a: "3 < h" "3 < w" "1 < (h + 3) div 4" "1 < (w + 3) div 4"
    "3 < 4 * ((h + 3) div 4)" "3 < 4 * ((w + 3) div 4)" by auto
  show ?thesis
    unfolding SPADEGenerator_body_def SPADEGenerator_init_eq
    by (simp only: sum.sel SPADEGenerator.simps stem_shape [OF a(1,2)] model1_shape [OF assms(1,2)]
        model2_shape [OF a(3,4) assms(3,4)] SPADE_model3_shape [OF a(3,4) assms(3,4)]
        model4_shape [OF a(5,6)] and_then_Inr)
qed

lemma SPADEGenerator_forward_shape:
  assumes "4 < h" "4 < w" "0 < h'" "0 < w'"
  shows "SPADEGenerator_forward (shape_framework tr) p
           (projr (SPADEGenerator_init input_nc output_nc k sigmoid)) u
           (n, input_nc, h, w) (n, 3, h', w') sign =
         Inr (n, output_nc, 4 * ((h + 3) div 4), 4 * ((w + 3) div 4))"
  by (simp add: SPADEGenerator_forward_def Let_def SPADEGenerator_body_shape [OF assms])

lemma multiple_of_4: "4 dvd h \<Longrightarrow> 4 * ((h + 3) div 4) = (h::nat)"
  by (auto simp: dvd_def)

text \<open>
  Claim C7, as the code has it.  For an input whose height and width are multiples of
  4 and at least 8, the plain generator and the conditioned generator (for every
  number of residual blocks, every \<open>sign\<close> and every draw, with a non-empty condition
  map of 3 channels) return an output with the height and the width of the input.
\<close>

theorem generators_keep_resolution:
  assumes "4 dvd h" "4 dvd w" "8 \<le> h" "8 \<le> w" "0 < h'" "0 < w'"
  shows "Generator_forward (shape_framework training) p
           (Generator_init input_nc output_nc n_residual_blocks sigmoid) (n, input_nc, h, w) =
         Inr (n, output_nc, h, w)
       \<and> (\<exists>G. SPADEGenerator_init input_nc output_nc n_residual_blocks sigmoid = Inr G
            \<and> SPADEGenerator_forward (shape_framework training) p G u
                 (n, input_nc, h, w) (n, 3, h', w') sign =
               Inr (n, output_nc, h, w))"
proof -
  from assms have big: "4 < h" "4 < w" by auto
  have "Generator_forward (shape_framework training) p
           (Generator_init input_nc output_nc n_residual_blocks sigmoid) (n, input_nc, h, w) =
         Inr (n, output_nc, h, w)"
    using Generator_forward_shape [OF big] assms(1,2) by (simp add: multiple_of_4)
  moreover have "SPADEGenerator_forward (shape_framework training) p
      (projr (SPADEGenerator_init input_nc output_nc n_residual_blocks sigmoid)) u
      (n, input_nc, h, w) (n, 3, h', w') sign = Inr (n, output_nc, h, w)"
    using SPADEGenerator_forward_shape [OF big assms(5,6)] assms(1,2) by (simp add: multiple_of_4)
  moreover have "SPADEGenerator_init input_nc output_nc n_residual_blocks sigmoid =
      Inr (projr (SPADEGenerator_init input_nc output_nc n_residual_blocks sigmoid))"
    by (simp add: SPADEGenerator_init_eq)
  ultimately show ?thesis by blast
qed

theorem generators_keep_resolution_witness:
  "Generator_forward (shape_framework True) [] (Generator_init 3 1 9 True) (1, 3, 256, 256) =
     Inr (1, 1, 256, 256)
   \<and> (\<exists>G. SPADEGenerator_init 3 1 9 True = Inr G
        \<and> SPADEGenerator_forward (shape_framework True) [] G (1 / 2)
             (1, 3, 256, 256) (1, 3, 256, 256) 0 = Inr (1, 1, 256, 256))"
  by (rule generators_keep_resolution) simp_all

text \<open>
  Claim C7, as it is stated, fails for an even size that is not a multiple of 4: a
  10 by 10 input comes back as 12 by 12 from both generators in their default
  configuration.
\<close>

theorem generators_change_resolution:
  "Generator_forward (shape_framework True) [] (Generator_init 3 1 9 True) (1, 3, 10, 10) =
     Inr (1, 1, 12, 12)
   \<and> SPADEGenerator_forward (shape_framework True) []
       (projr (SPADEGenerator_init 3 1 9 True)) (1 / 2) (1, 3, 10, 10) (1, 3, 10, 10) 1 =
     Inr (1, 1, 12, 12)"
proof -
  have a: "(4::nat) < 10" "(0::nat) < 10" by simp_all
  show ?thesis
    using Generator_forward_shape [OF a(1) a(1), of True "[]" 3 1 9 True 1]
      SPADEGenerator_forward_shape [OF a(1) a(1) a(2) a(2), of True "[]" 3 1 9 True "1 / 2" 1 1]
    by simp
qed

section \<open>The downsampling stages of GlobalGenerator2\<close>

lemma downsample_eq:
  "downsample k ngf nl act (ms, mult) =
     (ms @ concat (map (\<lambda>i. downsample_stage ngf nl act (mult div 2 ^ i)) [0..<k]),
      mult div 2 ^ k)"
proof (induction k arbitrary: ms mult)
  case 0
  then show ?case by simp
next
  case (Suc k)
  have "map (\<lambda>i. downsample_stage ngf nl act (mult div 2 ^ i)) [0..<Suc k] =
      downsample_stage ngf nl act mult #
      map (\<lambda>i. downsample_stage ngf nl act (mult div 2 div 2 ^ i)) [0..<k]"
    by (simp add: upt_conv_Cons map_Suc_upt [symmetric] div_mult2_eq del: upt_Suc)
  then show ?case
    by (simp add: Suc.IH downsample_stage_def div_mult2_eq del: upt_Suc)
qed

lemma length_stages:
  "length (concat (map (\<lambda>i. downsample_stage ngf nl act (f i)) [0..<k])) = 3 * k"
  by (induction k) (simp_all add: downsample_stage_def)

lemma nth_stage:
  "i < k \<Longrightarrow>
   take 3 (drop (3 * i) (concat (map (\<lambda>i. downsample_stage ngf nl act (f i)) [0..<k]) @ rest)) =
   downsample_stage ngf nl act (f i)"
proof (induction k arbitrary: rest)
  case 0
  then show ?case by simp
next
  case (Suc k)
  show ?case
  proof (cases "i < k")
    case True
    from Suc.IH [OF True, of "downsample_stage ngf nl act (f k) @ rest"]
    show ?thesis by simp
  next
    case False
    with Suc.prems have "i = k" by simp
    then show ?thesis
      by (simp add: length_stages) (simp add: downsample_stage_def)
  qed
qed

lemma resnet_blocks_extends:
  "resnet_blocks k d padding_type act nl ms = Inr ms' \<Longrightarrow> \<exists>ys. ms' = ms @ ys"
proof (induction k arbitrary: ms)
  case 0
  then show ?case by simp
next
  case (Suc k)
  then show ?case
    by (cases "ResnetBlock_init d padding_type nl act False") fastforce+
qed

lemma upsample_extends:
  "\<exists>ys. fst (upsample k ngf nl act (ms, mult)) = ms @ ys"
proof (induction k arbitrary: ms mult)
  case 0
  then show ?case by simp
next
  case (Suc k)
  show ?case
    using Suc [of "ms @ [Layer (ConvTranspose2d (ngf * (if mult div 2 = 0 then 1 else mult))
            (ngf * (if mult div 2 = 0 then 1 else mult div 2)) 3 2 1 1),
          Layer (nl (ngf * (if mult div 2 = 0 then 1 else mult div 2))), Layer act]"
        "if mult div 2 = 0 then 1 else mult div 2"]
    by (auto simp: Let_def)
qed

lemma GlobalGenerator2_init_model:
  assumes "GlobalGenerator2_init input_nc output_nc ngf n_downsampling n_blocks nl
             padding_type use_sig n_UPsampling = Inr G"
  shows "\<exists>ys. model G =
           [Layer (ReflectionPad2d 4), Layer (Conv2d input_nc (ngf * 8) 7 1 0),
            Layer (nl (ngf * 8)), Layer (ReLU True)]
           @ (concat (map (\<lambda>i. downsample_stage ngf nl (ReLU True) (8 div 2 ^ i))
                [0..<nat n_downsampling]) @ ys)"
proof -
  let ?stem = "[Layer (ReflectionPad2d 4), Layer (Conv2d input_nc (ngf * 8) 7 1 0),
            Layer (nl (ngf * 8)), Layer (ReLU True)]"
  let ?down = "?stem @ concat (map (\<lambda>i. downsample_stage ngf nl (ReLU True) (8 div 2 ^ i))
                [0..<nat n_downsampling])"
  let ?mult = "8 div 2 ^ nat n_downsampling"
  let ?up = "if n_UPsampling \<le> 0 then n_downsampling else n_UPsampling"
  from assms obtain ms where
    blocks: "resnet_blocks (nat n_blocks) (ngf * ?mult) padding_type (ReLU True) nl ?down = Inr ms"
    and G: "model G = fst (upsample (nat ?up) ngf nl (ReLU True) (ms, ?mult))
        @ [Layer (ReflectionPad2d 3), Layer (Conv2d ngf output_nc 7 1 0),
           Layer (if use_sig then Sigmoid else Tanh)]"
    by (cases "resnet_blocks (nat n_blocks) (ngf * ?mult) padding_type (ReLU True) nl ?down")
       (auto simp: GlobalGenerator2_init_def Let_def downsample_eq split: if_splits prod.splits)
  from resnet_blocks_extends [OF blocks] obtain ys where "ms = ?down @ ys" ..
  moreover from upsample_extends [of "nat ?up" ngf nl "ReLU True" ms ?mult]
  obtain zs where "fst (upsample (nat ?up) ngf nl (ReLU True) (ms, ?mult)) = ms @ zs" ..
  ultimately show ?thesis using G by simp
qed


lemma drop_length_append: "length xs = m \<Longrightarrow> drop (m + n) (xs @ ys) = drop n ys"
  by simp

lemma downsampling_stage_modules:
  assumes "GlobalGenerator2_init input_nc output_nc ngf n_downsampling n_blocks nl
             padding_type use_sig n_UPsampling = Inr G"
    and "i < nat n_downsampling"
  shows "take 3 (drop (4 + 3 * i) (model G)) = downsample_stage ngf nl (ReLU True) (8 div 2 ^ i)"
proof -
  let ?stem = "[Layer (ReflectionPad2d 4), Layer (Conv2d input_nc (ngf * 8) 7 1 0),
        Layer (nl (ngf * 8)), Layer (ReLU True)]"
  let ?stages = "concat (map (\<lambda>i. downsample_stage ngf nl (ReLU True) (8 div 2 ^ i))
            [0..<nat n_downsampling])"
  from GlobalGenerator2_init_model [OF assms(1)] obtain ys where
    G: "model G = ?stem @ (?stages @ ys)" ..
  have "drop (4 + 3 * i) (?stem @ (?stages @ ys)) = drop (3 * i) (?stages @ ys)"
    by (rule drop_length_append) simp
  then show ?thesis
    using nth_stage [OF assms(2), of ngf nl "ReLU True" "\<lambda>i. 8 div 2 ^ i" ys]
    by (simp only: G)
qed

lemma transposed_conv_doubles:
  assumes "0 < h" "0 < w"
  shows "shape_layer tr (ConvTranspose2d c c_out 4 2 1 0) (n, c, h, w) =
         Inr (n, c_out, 2 * h, 2 * w)"
proof -
  have "(h - 1) * 2 + 4 + 0 - 2 = 2 * h" if "0 < h" for h :: nat
    using that by (cases h) simp_all
  with assms show ?thesis by simp
qed

lemma resnet_blocks_reflect:
  "\<exists>ms'. resnet_blocks k d ''reflect'' act nl ms = Inr ms'"
  by (induction k arbitrary: ms) (simp_all add: ResnetBlock_init_def build_conv_block_def)

lemma GlobalGenerator2_init_reflect:
  assumes "0 \<le> n_blocks"
  shows "\<exists>G. GlobalGenerator2_init input_nc output_nc ngf n_downsampling n_blocks nl
           ''reflect'' use_sig n_UPsampling = Inr G"
proof -
  obtain ms' where
    "resnet_blocks (nat n_blocks) (ngf * (8 div 2 ^ nat n_downsampling)) ''reflect'' (ReLU True) nl
       ([Layer (ReflectionPad2d 4), Layer (Conv2d input_nc (ngf * 8) 7 1 0),
         Layer (nl (ngf * 8)), Layer (ReLU True)] @
        concat (map (\<lambda>i. downsample_stage ngf nl (ReLU True) (8 div 2 ^ i))
          [0..<nat n_downsampling])) = Inr ms'"
    using resnet_blocks_reflect by blast
  then show ?thesis
    using assms
    by (simp add: GlobalGenerator2_init_def Let_def downsample_eq split: prod.splits)
qed

lemma GlobalGenerator2_init_default:
  "GlobalGenerator2_init 3 1 64 3 9 nn_BatchNorm2d ''reflect'' False 0 =
     Inr (projr (GlobalGenerator2_init 3 1 64 3 9 nn_BatchNorm2d ''reflect'' False 0))"
proof -
  have "(0::int) \<le> 9" by simp
  from GlobalGenerator2_init_reflect [OF this, of 3 1 64 3 nn_BatchNorm2d False 0]
  obtain G where "GlobalGenerator2_init 3 1 64 3 9 nn_BatchNorm2d ''reflect'' False 0 = Inr G" ..
  then show ?thesis by simp
qed

text \<open>
  Claim C6, as the code has it.  In a \<open>GlobalGenerator2\<close> that was built, the stage
  \<open>i\<close> of the \<open>n_downsampling\<close> stages (counted from 0) stands at the positions
  \<open>4 + 3 * i\<close> to \<open>6 + 3 * i\<close> of the model: a transposed convolution with kernel 4,
  stride 2 and padding 1 from \<open>ngf * mult\<close> to \<open>ngf * mult div 2\<close> channels, where
  \<open>mult\<close> is 8 halved \<open>i\<close> times, then the normalisation and the activation.  The
  transposed convolution halves the channels and doubles the height and the width.
\<close>

theorem GlobalGenerator2_downsampling_stages:
  assumes "GlobalGenerator2_init input_nc output_nc ngf n_downsampling n_blocks norm_layer'
             padding_type use_sig n_UPsampling = Inr G"
    and "i < nat n_downsampling"
    and "0 < h" and "0 < w"
  shows "take 3 (drop (4 + 3 * i) (model G)) =
           [Layer (ConvTranspose2d (ngf * (8 div 2 ^ i)) (ngf * (8 div 2 ^ i) div 2) 4 2 1 0),
            Layer (norm_layer' (ngf * (8 div 2 ^ i) div 2)),
            Layer (ReLU True)]
       \<and> shape_layer training
           (ConvTranspose2d (ngf * (8 div 2 ^ i)) (ngf * (8 div 2 ^ i) div 2) 4 2 1 0)
           (n, ngf * (8 div 2 ^ i), h, w) =
         Inr (n, ngf * (8 div 2 ^ i) div 2, 2 * h, 2 * w)"
  using downsampling_stage_modules [OF assms(1,2)] transposed_conv_doubles [OF assms(3,4)]
  by (simp add: downsample_stage_def)

theorem GlobalGenerator2_downsampling_stages_witness:
  "take 3 (drop 7
     (model (projr (GlobalGenerator2_init 3 1 64 3 9 nn_BatchNorm2d ''reflect'' False 0)))) =
     [Layer (ConvTranspose2d 256 128 4 2 1 0), Layer (BatchNorm2d 128 True), Layer (ReLU True)]
   \<and> shape_layer True (ConvTranspose2d 256 128 4 2 1 0) (1, 256, 32, 32) = Inr (1, 128, 64, 64)"
proof -
  have a: "1 < nat 3" "(0::nat) < 32" by simp_all
  from GlobalGenerator2_downsampling_stages [OF GlobalGenerator2_init_default a(1) a(2) a(2),
      of True 1]
  show ?thesis by (simp add: nn_BatchNorm2d_def)
qed

text \<open>
  Claim C6, as it is stated, says the spatial size is left unchanged.  The first
  downsampling stage of the default generator takes a 16 by 16 map of 512 channels to a
  32 by 32 map of 256 channels.
\<close>

theorem GlobalGenerator2_downsampling_doubles:
  "take 3 (drop 4
     (model (projr (GlobalGenerator2_init 3 1 64 3 9 nn_BatchNorm2d ''reflect'' False 0)))) =
     [Layer (ConvTranspose2d 512 256 4 2 1 0), Layer (BatchNorm2d 256 True), Layer (ReLU True)]
   \<and> modules_forward (shape_framework True) [] 4
       [Layer (ConvTranspose2d 512 256 4 2 1 0), Layer (BatchNorm2d 256 True), Layer (ReLU True)]
       (1, 512, 16, 16) = Inr (1, 256, 32, 32)"
proof -
  have a: "0 < nat 3" by simp
  from downsampling_stage_modules [OF GlobalGenerator2_init_default a]
  show ?thesis by (simp add: nn_BatchNorm2d_def downsample_stage_def)
qed

section \<open>A residual block on shapes\<close>


end
